theory Spec2Isabelle
  imports Complex_Main "HOL-Library.AList"
begin

section \<open>Data model\<close>

text \<open>
  The application state of \<^verbatim>\<open>App.tsx\<close> and the proof vault of \<^verbatim>\<open>storage.ts\<close>.
  JavaScript numbers that hold counters (points, experience, rank index, costs) are
  modelled as unbounded integers: all values stay far inside the safe-integer range,
  where \<^verbatim>\<open>Math.floor(a / b)\<close> is exact floor division for a non-zero \<^verbatim>\<open>b\<close>.
  The volume is only ever copied, so it is a real number.
\<close>

record Habit =
  habit_id :: string
  title :: string
  completedDays :: "string list"
  createdAt :: string

record Proof =
  proof_id :: string
  habitId :: string
  date :: string

record ColorTheme =
  theme_id :: string
  hex :: string
  cost :: int
  unlocked :: bool

record Stats =
  points :: int
  totalXP :: int
  rankIndex :: int

record GameState =
  habits :: "Habit list"
  stats :: Stats
  themes :: "ColorTheme list"
  activeThemeId :: string
  proofLog :: "Proof list"
  lastCheckDate :: "string option"
  volume :: real

text \<open>
  The module \<^verbatim>\<open>constants.ts\<close> is imported by the application but its values are not
  part of the sources at hand, so the constants are a parameter of every operation.
\<close>

record Constants =
  INITIAL_THEMES :: "ColorTheme list"
  RANKS :: "string list"
  XP_PER_RANK :: int
  POINTS_PER_COMPLETION :: int
  MISS_PENALTY :: int

section \<open>Date oracle\<close>

text \<open>
  A JavaScript \<^verbatim>\<open>Date\<close> read in local time: \<^verbatim>\<open>getFullYear()\<close>, \<^verbatim>\<open>getMonth()\<close>
  (0 to 11) and \<^verbatim>\<open>getDate()\<close> (1 to 31).
\<close>

record JsDate =
  fullYear :: nat
  month :: nat
  dayOfMonth :: nat

text \<open>String conversion of a non-negative integer, as \<^verbatim>\<open>'' + num\<close> gives it.\<close>

fun string_of_nat :: "nat \<Rightarrow> string" where
  "string_of_nat n =
     (if n < 10 then [char_of (48 + n)]
      else string_of_nat (n div 10) @ [char_of (48 + n mod 10)])"

declare string_of_nat.simps [simp del]

definition pad :: "nat \<Rightarrow> string" where
  "pad num = (if num < 10 then ''0'' else '''') @ string_of_nat num"

definition getLocalDateString :: "JsDate \<Rightarrow> string" where
  "getLocalDateString d =
     string_of_nat (fullYear d) @ ''-'' @ pad (month d + 1) @ ''-'' @ pad (dayOfMonth d)"

definition isLeapYear :: "nat \<Rightarrow> bool" where
  "isLeapYear y = (y mod 4 = 0 \<and> (y mod 100 \<noteq> 0 \<or> y mod 400 = 0))"

definition daysInMonth :: "nat \<Rightarrow> nat \<Rightarrow> nat" where
  "daysInMonth y m =
     (if m = 1 then (if isLeapYear y then 29 else 28)
      else if m = 3 \<or> m = 5 \<or> m = 8 \<or> m = 10 then 30
      else 31)"

text \<open>
  \<^verbatim>\<open>yesterday.setDate(yesterday.getDate() - 1)\<close>: day 0 of a month is normalised by
  the runtime to the last day of the month before.
\<close>

definition setDateToPrevious :: "JsDate \<Rightarrow> JsDate" where
  "setDateToPrevious d =
     (if 1 < dayOfMonth d then d\<lparr>dayOfMonth := dayOfMonth d - 1\<rparr>
      else if month d = 0 then \<lparr>fullYear = fullYear d - 1, month = 11, dayOfMonth = 31\<rparr>
      else \<lparr>fullYear = fullYear d, month = month d - 1,
             dayOfMonth = daysInMonth (fullYear d) (month d - 1)\<rparr>)"

text \<open>
  JavaScript truthiness of an optional string: \<^verbatim>\<open>undefined\<close>, \<^verbatim>\<open>null\<close> and the
  empty string are falsy.
\<close>

definition truthy :: "string option \<Rightarrow> bool" where
  "truthy s = (case s of None \<Rightarrow> False | Some v \<Rightarrow> v \<noteq> [])"

section \<open>Rollover: \<^verbatim>\<open>checkDateAndReset\<close>\<close>

text \<open>The \<^verbatim>\<open>forEach\<close> loop that counts the habits without an entry for yesterday.\<close>

definition missedCount :: "string \<Rightarrow> Habit list \<Rightarrow> int" where
  "missedCount yesterdayStr hs =
     fold (\<lambda>h n. if yesterdayStr \<in> set (completedDays h) then n else n + 1) hs 0"

text \<open>
  The callback reads the clock for \<^verbatim>\<open>todayStr\<close> (\<open>callbackNow\<close>) and hands
  \<^verbatim>\<open>setGameState\<close> an updater, which reads the clock again for yesterday
  (\<open>updaterNow\<close>) when it runs. The second component tells whether the glitch effect
  was started (a miss was detected).
\<close>

definition checkDateAndReset ::
    "Constants \<Rightarrow> JsDate \<Rightarrow> JsDate \<Rightarrow> GameState \<Rightarrow> GameState \<times> bool" where
  "checkDateAndReset c callbackNow updaterNow prev =
     (let todayStr = getLocalDateString callbackNow in
      if truthy (lastCheckDate prev) \<and> lastCheckDate prev \<noteq> Some todayStr then
        (let yesterdayStr = getLocalDateString (setDateToPrevious updaterNow);
             missed = missedCount yesterdayStr (habits prev) in
         if 0 < missed then
           (let penalty = missed * MISS_PENALTY c;
                newTotalXP = max 0 (totalXP (stats prev) - penalty);
                newRankIndex = newTotalXP div XP_PER_RANK c;
                newPoints = max 0 (points (stats prev) - penalty) in
            (prev\<lparr>stats := (stats prev)\<lparr>points := newPoints, totalXP := newTotalXP,
                                         rankIndex := min newRankIndex (int (length (RANKS c)) - 1)\<rparr>,
                  lastCheckDate := Some todayStr\<rparr>, True))
         else (prev\<lparr>lastCheckDate := Some todayStr\<rparr>, False))
      else if \<not> truthy (lastCheckDate prev) then (prev\<lparr>lastCheckDate := Some todayStr\<rparr>, False)
      else (prev, False))"

section \<open>Proof vault: \<^verbatim>\<open>storage.ts\<close>\<close>

text \<open>
  The object store \<^verbatim>\<open>proofs\<close> has key path \<^verbatim>\<open>id\<close>: it holds one payload per
  identifier, and \<^verbatim>\<open>put\<close> replaces the entry of an identifier already present. It is
  an association list of identifier and payload. Every function opens the database and
  runs one transaction; either may fail, which rejects the promise and, a transaction
  being atomic, leaves the store as it was. Whether the call completes is an input of
  the model.
\<close>

type_synonym ProofStore = "(string \<times> string) list"

datatype error =
  OpenError | TransactionError | TransactionAborted
  | FileReadError | JsonSyntaxError | InvalidBackupSignature

datatype Outcome = Completes | Fails error

definition saveProofImage :: "Outcome \<Rightarrow> string \<Rightarrow> string \<Rightarrow> ProofStore \<Rightarrow> error + ProofStore" where
  "saveProofImage io i imageData store =
     (case io of Fails e \<Rightarrow> Inl e | Completes \<Rightarrow> Inr (AList.update i imageData store))"

definition getAllProofs :: "Outcome \<Rightarrow> ProofStore \<Rightarrow> error + (string \<times> string) list" where
  "getAllProofs io store = (case io of Fails e \<Rightarrow> Inl e | Completes \<Rightarrow> Inr store)"

definition clearAndRestoreProofs ::
    "Outcome \<Rightarrow> (string \<times> string) list \<Rightarrow> ProofStore \<Rightarrow> error + ProofStore" where
  "clearAndRestoreProofs io proofs store =
     (case io of
        Fails e \<Rightarrow> Inl e
      | Completes \<Rightarrow> Inr (fold (\<lambda>p s. AList.update (fst p) (snd p) s) proofs []))"

definition deleteProofImage :: "Outcome \<Rightarrow> string \<Rightarrow> ProofStore \<Rightarrow> error + ProofStore" where
  "deleteProofImage io i store =
     (case io of Fails e \<Rightarrow> Inl e | Completes \<Rightarrow> Inr (AList.delete i store))"

section \<open>The application: \<^verbatim>\<open>App.tsx\<close>\<close>

datatype AppScreen = SPLASH | MENU | DASHBOARD | SETTINGS | PROOFLOG | PROGRESS | EXIT

text \<open>
  The React state of the component together with the vault. \<open>levelUpRank\<close> is the
  rank name shown by the level-up overlay.
\<close>

record App =
  screen :: AppScreen
  gameState :: GameState
  verificationTargetId :: "string option"
  levelUpRank :: "string option"
  proofStore :: ProofStore

text \<open>
  One reading of the clock: the local date, \<^verbatim>\<open>Date.now()\<close> and
  \<^verbatim>\<open>new Date().toISOString()\<close>.
\<close>

record Clock =
  localDate :: JsDate
  dateNow :: nat
  isoString :: string

subsection \<open>Completion: \<^verbatim>\<open>handleVerification\<close>\<close>

text \<open>
  The updater given to \<^verbatim>\<open>setGameState\<close>. Beside the new state it yields the index
  of the rank to announce, when the level-up timer is started.
\<close>

definition completionUpdater ::
    "Constants \<Rightarrow> string \<Rightarrow> string \<Rightarrow> string \<Rightarrow> string \<Rightarrow> GameState \<Rightarrow> GameState \<times> int option" where
  "completionUpdater c todayStr hid proofId isoStr prev =
     (case find (\<lambda>h. habit_id h = hid) (habits prev) of
        None \<Rightarrow> (prev, None)
      | Some habit \<Rightarrow>
          if todayStr \<in> set (completedDays habit) then (prev, None)
          else
            (let newProof = \<lparr>proof_id = proofId, habitId = hid, date = isoStr\<rparr>;
                 newHabits = map (\<lambda>h. if habit_id h = hid
                                       then h\<lparr>completedDays := completedDays h @ [todayStr]\<rparr>
                                       else h) (habits prev);
                 newTotalXP = totalXP (stats prev) + 100;
                 newRankIndex = min (newTotalXP div XP_PER_RANK c) (int (length (RANKS c)) - 1) in
             (prev\<lparr>habits := newHabits,
                   proofLog := newProof # proofLog prev,
                   stats := (stats prev)\<lparr>points := points (stats prev) + POINTS_PER_COMPLETION c,
                                          totalXP := newTotalXP,
                                          rankIndex := newRankIndex\<rparr>\<rparr>,
              if rankIndex (stats prev) < newRankIndex then Some newRankIndex else None)))"

text \<open>\<^verbatim>\<open>RANKS[i]\<close>: \<^verbatim>\<open>undefined\<close> outside the array.\<close>

definition rankName :: "Constants \<Rightarrow> int \<Rightarrow> string option" where
  "rankName c i = (if 0 \<le> i \<and> i < int (length (RANKS c)) then Some (RANKS c ! nat i) else None)"

text \<open>
  The handler. A rejected \<^verbatim>\<open>saveProofImage\<close> makes the \<^verbatim>\<open>await\<close> throw, so nothing
  after it runs; the first component is that error.
\<close>

definition handleVerification ::
    "Constants \<Rightarrow> Clock \<Rightarrow> Outcome \<Rightarrow> string \<Rightarrow> App \<Rightarrow> error option \<times> App" where
  "handleVerification c clk io imageData app =
     (if \<not> truthy (verificationTargetId app) then (None, app)
      else
        (let todayStr = getLocalDateString (localDate clk);
             hid = the (verificationTargetId app);
             proofId = ''proof_'' @ string_of_nat (dateNow clk) in
         case saveProofImage io proofId imageData (proofStore app) of
           Inl e \<Rightarrow> (Some e, app)
         | Inr store \<Rightarrow>
             (let (g, up) = completionUpdater c todayStr hid proofId (isoString clk) (gameState app) in
              (None, app\<lparr>gameState := g,
                         proofStore := store,
                         verificationTargetId := None,
                         levelUpRank := (case up of None \<Rightarrow> levelUpRank app
                                         | Some i \<Rightarrow> rankName c i)\<rparr>))))"

subsection \<open>Reset, habit deletion, theme unlock\<close>

definition handleReset :: "Constants \<Rightarrow> JsDate \<Rightarrow> App \<Rightarrow> App" where
  "handleReset c today app =
     app\<lparr>gameState := \<lparr>habits = [],
                        stats = \<lparr>points = 0, totalXP = 0, rankIndex = 0\<rparr>,
                        themes = INITIAL_THEMES c,
                        activeThemeId = ''red'',
                        proofLog = [],
                        lastCheckDate = Some (getLocalDateString today),
                        volume = volume (gameState app)\<rparr>,
         screen := MENU\<rparr>"

definition onDeleteHabit :: "string \<Rightarrow> App \<Rightarrow> App" where
  "onDeleteHabit i app =
     app\<lparr>gameState := (gameState app)
            \<lparr>habits := filter (\<lambda>h. habit_id h \<noteq> i) (habits (gameState app)),
             proofLog := filter (\<lambda>p. habitId p \<noteq> i) (proofLog (gameState app))\<rparr>\<rparr>"

definition onUnlock :: "string \<Rightarrow> GameState \<Rightarrow> GameState" where
  "onUnlock themeId prev =
     (case find (\<lambda>t. theme_id t = themeId) (themes prev) of
        None \<Rightarrow> prev
      | Some theme \<Rightarrow>
          if unlocked theme \<or> points (stats prev) < cost theme then prev
          else prev\<lparr>stats := (stats prev)\<lparr>points := points (stats prev) - cost theme\<rparr>,
                    themes := map (\<lambda>t. if theme_id t = themeId then t\<lparr>unlocked := True\<rparr> else t)
                                  (themes prev)\<rparr>)"

section \<open>Backup: \<^verbatim>\<open>handleExport\<close> and \<^verbatim>\<open>handleImport\<close>\<close>

text \<open>
  The parsed backup document. A field that is absent (or \<^verbatim>\<open>null\<close>) is \<open>None\<close>; an
  array, even an empty one, is truthy. \<^verbatim>\<open>JSON.parse\<close> after \<^verbatim>\<open>JSON.stringify\<close>
  gives back a value equal to the one written, for the strings, finite numbers, booleans,
  arrays and plain objects this state is made of, so the file is the document itself.
\<close>

record BackupDocument =
  version :: string
  timestamp :: string
  doc_gameState :: "GameState option"
  doc_proofs :: "(string \<times> string) list option"

definition handleExport :: "Outcome \<Rightarrow> string \<Rightarrow> App \<Rightarrow> error + BackupDocument" where
  "handleExport io isoStr app =
     (case getAllProofs io (proofStore app) of
        Inl e \<Rightarrow> Inl e
      | Inr proofs \<Rightarrow>
          Inr \<lparr>version = ''1.0'', timestamp = isoStr,
               doc_gameState = Some (gameState app), doc_proofs = Some proofs\<rparr>)"

text \<open>What the file reader and \<^verbatim>\<open>JSON.parse\<close> make of the chosen file.\<close>

datatype ImportFile = Unreadable | Malformed | Parsed BackupDocument

definition onImport :: "GameState \<Rightarrow> App \<Rightarrow> App" where
  "onImport newState app = app\<lparr>gameState := newState, screen := MENU\<rparr>"

definition handleImport ::
    "Outcome \<Rightarrow> ImportFile option \<Rightarrow> bool \<Rightarrow> App \<Rightarrow> error option \<times> App" where
  "handleImport io file confirmImport app =
     (case file of
        None \<Rightarrow> (None, app)
      | Some f \<Rightarrow>
          if \<not> confirmImport then (None, app)
          else
            (case f of
               Unreadable \<Rightarrow> (Some FileReadError, app)
             | Malformed \<Rightarrow> (Some JsonSyntaxError, app)
             | Parsed data \<Rightarrow>
                 (case (doc_gameState data, doc_proofs data) of
                    (Some g, Some proofs) \<Rightarrow>
                      (case clearAndRestoreProofs io proofs (proofStore app) of
                         Inl e \<Rightarrow> (Some e, app)
                       | Inr store \<Rightarrow> (None, onImport g (app\<lparr>proofStore := store\<rparr>)))
                  | _ \<Rightarrow> (Some InvalidBackupSignature, app))))"

section \<open>Calendar-day order\<close>

text \<open>
  Day strings \<^verbatim>\<open>YYYY-MM-DD\<close> are zero-padded, so their calendar order is the
  lexicographic order of the strings by character code. An unset date comes before
  every day.
\<close>

fun day_le :: "string \<Rightarrow> string \<Rightarrow> bool" where
  "day_le [] ys = True"
| "day_le (x # xs) [] = False"
| "day_le (x # xs) (y # ys) =
     (if x = y then day_le xs ys else (of_char x :: nat) < of_char y)"

fun date_le :: "string option \<Rightarrow> string option \<Rightarrow> bool" where
  "date_le None b = True"
| "date_le (Some x) None = False"
| "date_le (Some x) (Some y) = day_le x y"

section \<open>The calendar\<close>






section \<open>Runs of the application\<close>

text \<open>
  The operations that read the clock: a rollover check (with its two readings), the
  completion of a designated habit (\<^verbatim>\<open>onToggleHabit\<close> followed by the capture of
  the photograph) and a reset. \<open>eventDay\<close> is the day the operation takes for today.
\<close>

datatype Event =
    RolloverCheck JsDate JsDate
  | Completion string Clock Outcome string
  | Reset JsDate

fun eventDay :: "Event \<Rightarrow> string" where
  "eventDay (RolloverCheck callbackNow updaterNow) = getLocalDateString callbackNow"
| "eventDay (Completion hid clk io imageData) = getLocalDateString (localDate clk)"
| "eventDay (Reset today) = getLocalDateString today"

fun step :: "Constants \<Rightarrow> Event \<Rightarrow> App \<Rightarrow> App" where
  "step c (RolloverCheck callbackNow updaterNow) app =
     app\<lparr>gameState := fst (checkDateAndReset c callbackNow updaterNow (gameState app))\<rparr>"
| "step c (Completion hid clk io imageData) app =
     snd (handleVerification c clk io imageData (app\<lparr>verificationTargetId := Some hid\<rparr>))"
| "step c (Reset today) app = handleReset c today app"

text \<open>The check dates after each operation of a run.\<close>

fun datesAlong :: "Constants \<Rightarrow> App \<Rightarrow> Event list \<Rightarrow> string option list" where
  "datesAlong c app [] = []"
| "datesAlong c app (e # es) =
     lastCheckDate (gameState (step c e app)) # datesAlong c (step c e app) es"

fun neverGoesBack :: "string \<Rightarrow> string list \<Rightarrow> bool" where
  "neverGoesBack d [] = True"
| "neverGoesBack d (x # xs) = (day_le d x \<and> neverGoesBack x xs)"

fun neverDecreases :: "string option \<Rightarrow> string option list \<Rightarrow> bool" where
  "neverDecreases d [] = True"
| "neverDecreases d (x # xs) = (date_le d x \<and> neverDecreases x xs)"

section \<open>A sample installation\<close>

text \<open>
  Concrete values on which the operations are run below: three ranks of 1000 experience
  each, three habits of which the third has no entry for 29 February 2024, and a clock
  that reads 1 March 2024.
\<close>

definition demoConstants :: Constants where
  "demoConstants =
     \<lparr>INITIAL_THEMES = [\<lparr>theme_id = ''red'', hex = ''#FF0000'', cost = 0, unlocked = True\<rparr>,
                        \<lparr>theme_id = ''blue'', hex = ''#0000FF'', cost = 500, unlocked = False\<rparr>],
      RANKS = [''R0'', ''R1'', ''R2''],
      XP_PER_RANK = 1000, POINTS_PER_COMPLETION = 10, MISS_PENALTY = 50\<rparr>"

definition demoHabits :: "Habit list" where
  "demoHabits =
     [\<lparr>habit_id = ''h1'', title = ''Run'', completedDays = [''2024-02-29''],
       createdAt = ''2024-02-01T08:00:00.000Z''\<rparr>,
      \<lparr>habit_id = ''h2'', title = ''Read'', completedDays = [''2024-02-29'', ''2024-03-01''],
       createdAt = ''2024-02-01T08:01:00.000Z''\<rparr>,
      \<lparr>habit_id = ''h3'', title = ''Write'', completedDays = [],
       createdAt = ''2024-02-01T08:02:00.000Z''\<rparr>]"

definition demoState :: GameState where
  "demoState =
     \<lparr>habits = demoHabits,
      stats = \<lparr>points = 120, totalXP = 950, rankIndex = 0\<rparr>,
      themes = INITIAL_THEMES demoConstants,
      activeThemeId = ''red'',
      proofLog = [\<lparr>proof_id = ''proof_7'', habitId = ''h1'', date = ''2024-02-29T09:00:00.000Z''\<rparr>],
      lastCheckDate = Some ''2024-02-29'',
      volume = 1 / 2\<rparr>"

definition demoApp :: App where
  "demoApp =
     \<lparr>screen = DASHBOARD, gameState = demoState, verificationTargetId = Some ''h3'',
      levelUpRank = None, proofStore = [(''proof_7'', ''data:image/png;base64,AAAA'')]\<rparr>"

definition demoClock :: Clock where
  "demoClock =
     \<lparr>localDate = \<lparr>fullYear = 2024, month = 2, dayOfMonth = 1\<rparr>,
      dateNow = 42, isoString = ''2024-03-01T08:00:00.000Z''\<rparr>"

definition demoFeb28 :: JsDate where
  "demoFeb28 = \<lparr>fullYear = 2024, month = 1, dayOfMonth = 28\<rparr>"

definition demoFeb29 :: JsDate where
  "demoFeb29 = \<lparr>fullYear = 2024, month = 1, dayOfMonth = 29\<rparr>"

definition demoMarch2 :: JsDate where
  "demoMarch2 = \<lparr>fullYear = 2024, month = 2, dayOfMonth = 2\<rparr>"

definition demoRun :: "Event list" where
  "demoRun =
     [RolloverCheck (localDate demoClock) (localDate demoClock),
      Completion ''h3'' demoClock Completes ''photo'',
      Reset demoMarch2,
      RolloverCheck demoMarch2 demoMarch2,
      Completion ''h1'' (demoClock\<lparr>localDate := demoMarch2\<rparr>) Completes ''photo'']"

section \<open>The sample clock\<close>

lemma demo_today: "getLocalDateString (localDate demoClock) = ''2024-03-01''"
  by code_simp

lemma demo_yesterday: "getLocalDateString (setDateToPrevious (localDate demoClock)) = ''2024-02-29''"
  by code_simp

lemma demo_proofId: "string_of_nat (dateNow demoClock) = ''42''"
  by code_simp

lemma demo_feb28: "getLocalDateString demoFeb28 = ''2024-02-28''"
  by code_simp

lemma demo_feb29: "getLocalDateString demoFeb29 = ''2024-02-29''"
  by code_simp

lemma demo_march2: "getLocalDateString demoMarch2 = ''2024-03-02''"
  by code_simp


section \<open>The day before\<close>


















section \<open>Rollover penalty\<close>






section \<open>Completion\<close>

lemma find_map_preserving:
  assumes "\<And>x. P (f x) = P x"
  shows "find P (map f xs) = map_option f (find P xs)"
  using assms by (induction xs) simp_all

lemma updater_idempotent:
  "fst (completionUpdater c t hid p2 i2 (fst (completionUpdater c t hid p1 i1 g)))
     = fst (completionUpdater c t hid p1 i1 g)"
proof (cases "find (\<lambda>h. habit_id h = hid) (habits g)")
  case None
  then show ?thesis by (simp add: completionUpdater_def)
next
  case (Some habit)
  show ?thesis
  proof (cases "t \<in> set (completedDays habit)")
    case True
    with Some show ?thesis by (simp add: completionUpdater_def)
  next
    case False
    let ?f = "\<lambda>h. if habit_id h = hid then h\<lparr>completedDays := completedDays h @ [t]\<rparr> else h"
    have same: "\<And>x. (habit_id (?f x) = hid) = (habit_id x = hid)" by simp
    have hid: "habit_id habit = hid" using Some by (auto simp: find_Some_iff)
    have "find (\<lambda>h. habit_id h = hid) (map ?f (habits g)) = Some (?f habit)"
      using find_map_preserving [of "\<lambda>h. habit_id h = hid" ?f "habits g", OF same] Some by simp
    with Some False hid show ?thesis
      by (simp add: completionUpdater_def Let_def)
  qed
qed

lemma handleVerification_gameState:
  "gameState (snd (handleVerification c clk io img app)) =
     (if truthy (verificationTargetId app) \<and> io = Completes
      then fst (completionUpdater c (getLocalDateString (localDate clk)) (the (verificationTargetId app))
                  (''proof_'' @ string_of_nat (dateNow clk)) (isoString clk) (gameState app))
      else gameState app)"
  by (cases io) (simp_all add: handleVerification_def saveProofImage_def Let_def case_prod_beta)

lemma handleVerification_completes:
  "fst (handleVerification c clk Completes img app) = None"
  by (simp add: handleVerification_def saveProofImage_def Let_def case_prod_beta)

text \<open>
  C3. For a habit that is found and has no entry for today, the completion updater
  appends today to the \<open>completedDays\<close> of that habit, adds
  \<open>POINTS_PER_COMPLETION\<close> to the points and the fixed award of 100 to the experience,
  sets the rank index to the smaller of the floor of experience by \<open>XP_PER_RANK\<close> and
  the last rank, and announces a rank exactly when the new index is above the old one,
  the rank announced being the new index. With experience 950, 1000 experience per rank
  and three ranks, one completion gives experience 1050 and rank index 1, and the
  level-up overlay shows the second rank.
\<close>

theorem completion_effect:
  "(find (\<lambda>h. habit_id h = hid) (habits prev) = Some habit
      \<and> today \<notin> set (completedDays habit) \<and> 0 < XP_PER_RANK c
    \<longrightarrow> completionUpdater c today hid proofId isoStr prev =
          (prev\<lparr>habits := map (\<lambda>h. if habit_id h = hid
                                     then h\<lparr>completedDays := completedDays h @ [today]\<rparr> else h)
                                (habits prev),
                proofLog := \<lparr>proof_id = proofId, habitId = hid, date = isoStr\<rparr> # proofLog prev,
                stats := (stats prev)
                   \<lparr>points := points (stats prev) + POINTS_PER_COMPLETION c,
                    totalXP := totalXP (stats prev) + 100,
                    rankIndex := min ((totalXP (stats prev) + 100) div XP_PER_RANK c)
                                     (int (length (RANKS c)) - 1)\<rparr>\<rparr>,
           if rankIndex (stats prev)
                < min ((totalXP (stats prev) + 100) div XP_PER_RANK c) (int (length (RANKS c)) - 1)
           then Some (min ((totalXP (stats prev) + 100) div XP_PER_RANK c) (int (length (RANKS c)) - 1))
           else None)
        \<and> find (\<lambda>h. habit_id h = hid) (habits (fst (completionUpdater c today hid proofId isoStr prev)))
            = Some (habit\<lparr>completedDays := completedDays habit @ [today]\<rparr>))
   \<and> (totalXP (stats (gameState demoApp)) = 950
      \<and> rankIndex (stats (gameState demoApp)) = 0
      \<and> XP_PER_RANK demoConstants = 1000
      \<and> length (RANKS demoConstants) = 3
      \<and> totalXP (stats (gameState (snd (handleVerification demoConstants demoClock Completes img demoApp)))) = 1050
      \<and> rankIndex (stats (gameState (snd (handleVerification demoConstants demoClock Completes img demoApp)))) = 1
      \<and> levelUpRank (snd (handleVerification demoConstants demoClock Completes img demoApp)) = Some ''R1'')"
proof (intro conjI impI)
  assume a: "find (\<lambda>h. habit_id h = hid) (habits prev) = Some habit
      \<and> today \<notin> set (completedDays habit) \<and> 0 < XP_PER_RANK c"
  then show "completionUpdater c today hid proofId isoStr prev =
          (prev\<lparr>habits := map (\<lambda>h. if habit_id h = hid
                                     then h\<lparr>completedDays := completedDays h @ [today]\<rparr> else h)
                                (habits prev),
                proofLog := \<lparr>proof_id = proofId, habitId = hid, date = isoStr\<rparr> # proofLog prev,
                stats := (stats prev)
                   \<lparr>points := points (stats prev) + POINTS_PER_COMPLETION c,
                    totalXP := totalXP (stats prev) + 100,
                    rankIndex := min ((totalXP (stats prev) + 100) div XP_PER_RANK c)
                                     (int (length (RANKS c)) - 1)\<rparr>\<rparr>,
           if rankIndex (stats prev)
                < min ((totalXP (stats prev) + 100) div XP_PER_RANK c) (int (length (RANKS c)) - 1)
           then Some (min ((totalXP (stats prev) + 100) div XP_PER_RANK c) (int (length (RANKS c)) - 1))
           else None)"
    by (simp add: completionUpdater_def Let_def)
  let ?f = "\<lambda>h. if habit_id h = hid then h\<lparr>completedDays := completedDays h @ [today]\<rparr> else h"
  have same: "\<And>x. (habit_id (?f x) = hid) = (habit_id x = hid)" by simp
  have hid: "habit_id habit = hid" using a by (auto simp: find_Some_iff)
  have "find (\<lambda>h. habit_id h = hid) (map ?f (habits prev)) = Some (?f habit)"
    using find_map_preserving [of "\<lambda>h. habit_id h = hid" ?f "habits prev", OF same] a by simp
  with a hid show "find (\<lambda>h. habit_id h = hid)
      (habits (fst (completionUpdater c today hid proofId isoStr prev)))
            = Some (habit\<lparr>completedDays := completedDays habit @ [today]\<rparr>)"
    by (simp add: completionUpdater_def Let_def)
qed (simp_all add: handleVerification_def saveProofImage_def truthy_def demo_today demo_proofId
      completionUpdater_def rankName_def demoApp_def demoState_def demoHabits_def demoConstants_def Let_def)

text \<open>
  A completion that crosses no threshold: with 2000 experience per rank the same award
  leaves the rank index at 0 and announces nothing.
\<close>

theorem completion_effect_witness:
  "find (\<lambda>h. habit_id h = ''h1'') (habits demoState) = Some (demoHabits ! 0)
   \<and> ''2024-03-01'' \<notin> set (completedDays (demoHabits ! 0))
   \<and> 0 < XP_PER_RANK (demoConstants\<lparr>XP_PER_RANK := 2000\<rparr>)
   \<and> completionUpdater (demoConstants\<lparr>XP_PER_RANK := 2000\<rparr>) ''2024-03-01'' ''h1'' ''proof_43''
        ''2024-03-01T09:00:00.000Z'' demoState
      = (demoState\<lparr>habits := [(demoHabits ! 0)\<lparr>completedDays := [''2024-02-29'', ''2024-03-01'']\<rparr>,
                                demoHabits ! 1, demoHabits ! 2],
                    proofLog := \<lparr>proof_id = ''proof_43'', habitId = ''h1'',
                                  date = ''2024-03-01T09:00:00.000Z''\<rparr> # proofLog demoState,
                    stats := \<lparr>points = 130, totalXP = 1050, rankIndex = 0\<rparr>\<rparr>, None)"
  using completion_effect [of "''h1''" demoState "demoHabits ! 0" "''2024-03-01''"
      "demoConstants\<lparr>XP_PER_RANK := 2000\<rparr>" "''proof_43''" "''2024-03-01T09:00:00.000Z''"]
  by (simp add: demoState_def demoHabits_def demoConstants_def)

text \<open>
  C2. Once the completion flow has run for a habit without error, running it again for
  the same habit on the same calendar day leaves the aggregate exactly as the first run
  left it: the habits with their \<open>completedDays\<close>, the points, the experience, the rank
  index and the proof log are those of the first completion, whatever the second
  photograph, clock reading within the day or vault outcome.
\<close>

theorem completion_idempotent:
  assumes "verificationTargetId app = Some hid"
    and "handleVerification c clk1 io1 img1 app = (None, app1)"
    and "getLocalDateString (localDate clk2) = getLocalDateString (localDate clk1)"
  shows "gameState (snd (handleVerification c clk2 io2 img2 (app1\<lparr>verificationTargetId := Some hid\<rparr>)))
           = gameState app1"
proof (cases "truthy (Some hid) \<and> io2 = Completes")
  case False
  then show ?thesis by (auto simp: handleVerification_gameState)
next
  case True
  have "io1 = Completes"
    using assms(1,2) True
    by (cases io1) (simp_all add: handleVerification_def saveProofImage_def)
  moreover have "app1 = snd (handleVerification c clk1 io1 img1 app)"
    using assms(2) by simp
  ultimately have g1: "gameState app1 =
      fst (completionUpdater c (getLocalDateString (localDate clk1)) hid
             (''proof_'' @ string_of_nat (dateNow clk1)) (isoString clk1) (gameState app))"
    using assms(1) True by (simp add: handleVerification_gameState)
  have "gameState (snd (handleVerification c clk2 io2 img2 (app1\<lparr>verificationTargetId := Some hid\<rparr>)))
      = fst (completionUpdater c (getLocalDateString (localDate clk1)) hid
               (''proof_'' @ string_of_nat (dateNow clk2)) (isoString clk2) (gameState app1))"
    using True assms(3) by (simp add: handleVerification_gameState)
  also have "\<dots> = gameState app1"
    by (simp add: g1 updater_idempotent)
  finally show ?thesis .
qed

text \<open>
  The third sample habit completed twice on 1 March: the second run changes nothing and
  the day is listed once.
\<close>

theorem completion_idempotent_witness:
  "verificationTargetId demoApp = Some ''h3''
   \<and> fst (handleVerification demoConstants demoClock Completes ''photo1'' demoApp) = None
   \<and> gameState (snd (handleVerification demoConstants demoClock Completes ''photo2''
        ((snd (handleVerification demoConstants demoClock Completes ''photo1'' demoApp))
           \<lparr>verificationTargetId := Some ''h3''\<rparr>)))
      = gameState (snd (handleVerification demoConstants demoClock Completes ''photo1'' demoApp))
   \<and> map completedDays (habits (gameState (snd (handleVerification demoConstants demoClock Completes
        ''photo1'' demoApp)))) = [[''2024-02-29''], [''2024-02-29'', ''2024-03-01''], [''2024-03-01'']]"
proof -
  have t: "verificationTargetId demoApp = Some ''h3''" by (simp add: demoApp_def)
  have r: "handleVerification demoConstants demoClock Completes ''photo1'' demoApp
    = (None, snd (handleVerification demoConstants demoClock Completes ''photo1'' demoApp))"
    by (simp add: handleVerification_completes prod_eq_iff)
  have d: "map completedDays (habits (gameState (snd (handleVerification demoConstants demoClock Completes
        ''photo1'' demoApp)))) = [[''2024-02-29''], [''2024-02-29'', ''2024-03-01''], [''2024-03-01'']]"
    by (simp add: handleVerification_gameState truthy_def demo_today demo_proofId completionUpdater_def
        demoApp_def demoState_def demoHabits_def Let_def)
  show ?thesis
    using completion_idempotent [OF t r refl, of Completes "''photo2''"] t d
    by (simp add: handleVerification_completes)
qed

lemma completionUpdater_rejects:
  "find (\<lambda>h. habit_id h = hid) (habits g) = None
     \<or> (\<exists>habit. find (\<lambda>h. habit_id h = hid) (habits g) = Some habit \<and> t \<in> set (completedDays habit))
   \<Longrightarrow> completionUpdater c t hid p i g = (g, None)"
  by (auto simp: completionUpdater_def)

lemma handleVerification_proofStore:
  "proofStore (snd (handleVerification c clk io img app)) =
     (if truthy (verificationTargetId app) \<and> io = Completes
      then AList.update (''proof_'' @ string_of_nat (dateNow clk)) img (proofStore app)
      else proofStore app)"
  by (cases io) (simp_all add: handleVerification_def saveProofImage_def Let_def case_prod_beta)

text \<open>
  C4, as the code has it. A request without a designated habit returns at once: neither
  the aggregate nor the vault changes. When the designated habit is missing from the
  aggregate or already has an entry for today, the aggregate is returned unchanged, but
  that check is made by the state updater, after the proof payload was written: when the
  write completes the vault holds the payload under the fresh identifier.
\<close>

theorem rejected_completion:
  "(\<not> truthy (verificationTargetId app) \<longrightarrow> handleVerification c clk io img app = (None, app))
   \<and> (truthy (verificationTargetId app)
        \<and> (find (\<lambda>h. habit_id h = the (verificationTargetId app)) (habits (gameState app)) = None
           \<or> (find (\<lambda>h. habit_id h = the (verificationTargetId app)) (habits (gameState app)) = Some habit
              \<and> getLocalDateString (localDate clk) \<in> set (completedDays habit)))
      \<longrightarrow> gameState (snd (handleVerification c clk io img app)) = gameState app
        \<and> proofStore (snd (handleVerification c clk io img app))
            = (if io = Completes
               then AList.update (''proof_'' @ string_of_nat (dateNow clk)) img (proofStore app)
               else proofStore app))"
proof (intro conjI impI)
  assume "\<not> truthy (verificationTargetId app)"
  then show "handleVerification c clk io img app = (None, app)"
    by (simp add: handleVerification_def)
next
  assume a: "truthy (verificationTargetId app)
        \<and> (find (\<lambda>h. habit_id h = the (verificationTargetId app)) (habits (gameState app)) = None
           \<or> (find (\<lambda>h. habit_id h = the (verificationTargetId app)) (habits (gameState app)) = Some habit
              \<and> getLocalDateString (localDate clk) \<in> set (completedDays habit)))"
  then have "completionUpdater c (getLocalDateString (localDate clk)) (the (verificationTargetId app))
      (''proof_'' @ string_of_nat (dateNow clk)) (isoString clk) (gameState app) = (gameState app, None)"
    by (intro completionUpdater_rejects) auto
  then show "gameState (snd (handleVerification c clk io img app)) = gameState app"
    by (simp add: handleVerification_gameState)
  from a show "proofStore (snd (handleVerification c clk io img app))
            = (if io = Completes
               then AList.update (''proof_'' @ string_of_nat (dateNow clk)) img (proofStore app)
               else proofStore app)"
    by (simp add: handleVerification_proofStore)
qed

text \<open>
  The second sample habit is already completed on 1 March: the aggregate stays as it is.
  Without a target the handler does nothing.
\<close>

theorem rejected_completion_witness:
  "truthy (verificationTargetId (demoApp\<lparr>verificationTargetId := Some ''h2''\<rparr>))
   \<and> find (\<lambda>h. habit_id h = ''h2'') (habits (gameState demoApp)) = Some (demoHabits ! 1)
   \<and> getLocalDateString (localDate demoClock) \<in> set (completedDays (demoHabits ! 1))
   \<and> gameState (snd (handleVerification demoConstants demoClock Completes ''photo''
                        (demoApp\<lparr>verificationTargetId := Some ''h2''\<rparr>))) = demoState
   \<and> handleVerification demoConstants demoClock Completes ''photo''
        (demoApp\<lparr>verificationTargetId := None\<rparr>) = (None, demoApp\<lparr>verificationTargetId := None\<rparr>)"
  using rejected_completion [of "demoApp\<lparr>verificationTargetId := Some ''h2''\<rparr>" demoConstants demoClock
      Completes "''photo''" "demoHabits ! 1"]
    rejected_completion [of "demoApp\<lparr>verificationTargetId := None\<rparr>" demoConstants demoClock
      Completes "''photo''" "demoHabits ! 1"]
  by (simp add: truthy_def demo_today demoApp_def demoState_def demoHabits_def)

text \<open>
  C4 as stated fails: the rejection does not come before the proof write. For the second sample habit,
  already completed today, the aggregate is unchanged and yet the vault has gained the
  payload of the rejected request.
\<close>

theorem rejected_completion_writes_proof:
  "verificationTargetId (demoApp\<lparr>verificationTargetId := Some ''h2''\<rparr>) = Some ''h2''
   \<and> habit_id (demoHabits ! 1) = ''h2''
   \<and> habits (gameState demoApp) = demoHabits
   \<and> getLocalDateString (localDate demoClock) \<in> set (completedDays (demoHabits ! 1))
   \<and> gameState (snd (handleVerification demoConstants demoClock Completes ''photo''
                        (demoApp\<lparr>verificationTargetId := Some ''h2''\<rparr>))) = gameState demoApp
   \<and> proofStore demoApp = [(''proof_7'', ''data:image/png;base64,AAAA'')]
   \<and> proofStore (snd (handleVerification demoConstants demoClock Completes ''photo''
                        (demoApp\<lparr>verificationTargetId := Some ''h2''\<rparr>)))
       = [(''proof_7'', ''data:image/png;base64,AAAA''), (''proof_42'', ''photo'')]"
  by (simp add: handleVerification_gameState handleVerification_proofStore truthy_def demo_today
      demo_proofId completionUpdater_def demoApp_def demoState_def demoHabits_def)

text \<open>
  C5. When the vault rejects the write of the proof payload, the completion stops there:
  the application state after the handler is the state before it. In particular no day
  is appended, no points or experience are awarded, the proof log gains no record and
  the rank index keeps its value.
\<close>

theorem proof_save_failure_aborts:
  "snd (handleVerification c clk (Fails e) imageData app) = app"
  by (simp add: handleVerification_def saveProofImage_def)

section \<open>Theme unlock\<close>

text \<open>
  C7. Unlocking is a no-op when no theme has the identifier, when the theme with the
  identifier is already unlocked, or when the points are below its cost. Otherwise the
  cost is taken from the points, the theme is marked unlocked and nothing else changes.
  With points equal to the cost the unlock succeeds and leaves no points.
\<close>

theorem theme_unlock:
  "(themeId \<notin> theme_id ` set (themes prev) \<longrightarrow> onUnlock themeId prev = prev)
   \<and> (find (\<lambda>t. theme_id t = themeId) (themes prev) = Some theme
        \<and> (unlocked theme \<or> points (stats prev) < cost theme)
      \<longrightarrow> onUnlock themeId prev = prev)
   \<and> (find (\<lambda>t. theme_id t = themeId) (themes prev) = Some theme
        \<and> \<not> unlocked theme \<and> cost theme \<le> points (stats prev)
      \<longrightarrow> onUnlock themeId prev =
            prev\<lparr>stats := (stats prev)\<lparr>points := points (stats prev) - cost theme\<rparr>,
                 themes := map (\<lambda>t. if theme_id t = themeId then t\<lparr>unlocked := True\<rparr> else t)
                               (themes prev)\<rparr>
        \<and> find (\<lambda>t. theme_id t = themeId) (themes (onUnlock themeId prev))
            = Some (theme\<lparr>unlocked := True\<rparr>))
   \<and> (find (\<lambda>t. theme_id t = themeId) (themes prev) = Some theme
        \<and> \<not> unlocked theme \<and> points (stats prev) = cost theme
      \<longrightarrow> points (stats (onUnlock themeId prev)) = 0
        \<and> find (\<lambda>t. theme_id t = themeId) (themes (onUnlock themeId prev))
            = Some (theme\<lparr>unlocked := True\<rparr>))"
proof -
  let ?f = "\<lambda>t. if theme_id t = themeId then t\<lparr>unlocked := True\<rparr> else t"
  have same: "\<And>x. (theme_id (?f x) = themeId) = (theme_id x = themeId)" by simp
  have fm: "find (\<lambda>t. theme_id t = themeId) (map ?f (themes prev))
      = map_option ?f (find (\<lambda>t. theme_id t = themeId) (themes prev))"
    using find_map_preserving [of "\<lambda>t. theme_id t = themeId" ?f "themes prev", OF same] .
  have missing: "themeId \<notin> theme_id ` set (themes prev)
      \<Longrightarrow> find (\<lambda>t. theme_id t = themeId) (themes prev) = None"
    by (auto simp: find_None_iff)
  have tid: "find (\<lambda>t. theme_id t = themeId) (themes prev) = Some theme \<Longrightarrow> theme_id theme = themeId"
    by (auto simp: find_Some_iff)
  show ?thesis
    using missing tid by (auto simp: onUnlock_def fm)
qed

text \<open>
  The blue theme costs 500: it is unlocked with exactly 500 points, and not with 120;
  the red theme is unlocked already, and there is no green theme.
\<close>

theorem theme_unlock_witness:
  "find (\<lambda>t. theme_id t = ''blue'') (themes (demoState\<lparr>stats := \<lparr>points = 500, totalXP = 950, rankIndex = 0\<rparr>\<rparr>))
      = Some (INITIAL_THEMES demoConstants ! 1)
   \<and> \<not> unlocked (INITIAL_THEMES demoConstants ! 1)
   \<and> points (stats (demoState\<lparr>stats := \<lparr>points = 500, totalXP = 950, rankIndex = 0\<rparr>\<rparr>))
       = cost (INITIAL_THEMES demoConstants ! 1)
   \<and> onUnlock ''blue'' (demoState\<lparr>stats := \<lparr>points = 500, totalXP = 950, rankIndex = 0\<rparr>\<rparr>)
       = demoState\<lparr>stats := \<lparr>points = 0, totalXP = 950, rankIndex = 0\<rparr>,
                    themes := [INITIAL_THEMES demoConstants ! 0,
                               (INITIAL_THEMES demoConstants ! 1)\<lparr>unlocked := True\<rparr>]\<rparr>
   \<and> onUnlock ''blue'' demoState = demoState
   \<and> onUnlock ''red'' demoState = demoState
   \<and> onUnlock ''green'' demoState = demoState"
  using theme_unlock [of "''blue''" "demoState\<lparr>stats := \<lparr>points = 500, totalXP = 950, rankIndex = 0\<rparr>\<rparr>"
      "INITIAL_THEMES demoConstants ! 1"]
    theme_unlock [of "''blue''" demoState "INITIAL_THEMES demoConstants ! 1"]
    theme_unlock [of "''red''" demoState "INITIAL_THEMES demoConstants ! 0"]
    theme_unlock [of "''green''" demoState]
  by (simp add: demoState_def demoConstants_def)

section \<open>Habit deletion\<close>

lemma onDeleteHabit_no_dangling:
  assumes "habitId ` set (proofLog (gameState app)) \<subseteq> habit_id ` set (habits (gameState app))"
  shows "habitId ` set (proofLog (gameState (onDeleteHabit i app)))
           \<subseteq> habit_id ` set (habits (gameState (onDeleteHabit i app)))"
  using assms by (auto simp: onDeleteHabit_def image_iff subset_iff)

lemma onDeleteHabit_removes:
  "i \<notin> habit_id ` set (habits (gameState (onDeleteHabit i app)))
   \<and> i \<notin> habitId ` set (proofLog (gameState (onDeleteHabit i app)))
   \<and> proofStore (onDeleteHabit i app) = proofStore app"
  by (auto simp: onDeleteHabit_def)

text \<open>
  C9. Deleting the first sample habit removes it from the habits and removes its proof
  record from the proof log, but the payload of that record stays in the vault:
  \<^verbatim>\<open>deleteProofImage\<close> is imported by the application and never called.
\<close>

theorem habit_deletion_keeps_payload:
  "habit_id (demoHabits ! 0) = ''h1''
   \<and> proofLog (gameState demoApp)
       = [\<lparr>proof_id = ''proof_7'', habitId = ''h1'', date = ''2024-02-29T09:00:00.000Z''\<rparr>]
   \<and> proofStore demoApp = [(''proof_7'', ''data:image/png;base64,AAAA'')]
   \<and> habits (gameState (onDeleteHabit ''h1'' demoApp)) = [demoHabits ! 1, demoHabits ! 2]
   \<and> proofLog (gameState (onDeleteHabit ''h1'' demoApp)) = []
   \<and> proofStore (onDeleteHabit ''h1'' demoApp) = [(''proof_7'', ''data:image/png;base64,AAAA'')]"
  by (simp add: onDeleteHabit_def demoApp_def demoState_def demoHabits_def)

section \<open>Backup\<close>

lemma update_fresh_key:
  "k \<notin> fst ` set al \<Longrightarrow> AList.update k v al = al @ [(k, v)]"
  by (induction al) auto

lemma restore_distinct:
  "distinct (map fst (acc @ ps)) \<Longrightarrow>
     fold (\<lambda>p s. AList.update (fst p) (snd p) s) ps acc = acc @ ps"
proof (induction ps arbitrary: acc)
  case Nil
  then show ?case by simp
next
  case (Cons p ps)
  from Cons.prems have fresh: "fst p \<notin> fst ` set acc" by auto
  from Cons.prems have "distinct (map fst ((acc @ [p]) @ ps))" by simp
  from Cons.IH [OF this] fresh show ?case
    by (simp add: update_fresh_key)
qed

text \<open>
  C6. Exporting and then importing the exported document reproduces both stores: for a
  vault that holds one payload per identifier, when the vault operations complete, the
  import is accepted, the aggregate after it equals the aggregate that was exported, and
  the vault holds exactly the exported identifier and payload pairs. This holds whatever
  the application state is at the time of the import.
\<close>

theorem backup_round_trip:
  assumes "distinct (map fst (proofStore app))"
    and "handleExport Completes isoStr app = Inr doc"
  shows "fst (handleImport Completes (Some (Parsed doc)) True other) = None
       \<and> gameState (snd (handleImport Completes (Some (Parsed doc)) True other)) = gameState app
       \<and> proofStore (snd (handleImport Completes (Some (Parsed doc)) True other)) = proofStore app"
proof -
  from assms(2) have doc: "doc = \<lparr>version = ''1.0'', timestamp = isoStr,
      doc_gameState = Some (gameState app), doc_proofs = Some (proofStore app)\<rparr>"
    by (simp add: handleExport_def getAllProofs_def)
  from assms(1) have "fold (\<lambda>p s. AList.update (fst p) (snd p) s) (proofStore app) [] = proofStore app"
    using restore_distinct [of "[]" "proofStore app"] by simp
  then show ?thesis
    by (simp add: doc handleImport_def clearAndRestoreProofs_def onImport_def)
qed

text \<open>
  The sample installation exported, then reset with an emptied vault, then restored from
  the exported document.
\<close>

theorem backup_round_trip_witness:
  "distinct (map fst (proofStore demoApp))
   \<and> handleExport Completes ''2024-03-01T08:00:00.000Z'' demoApp
       = Inr \<lparr>version = ''1.0'', timestamp = ''2024-03-01T08:00:00.000Z'',
              doc_gameState = Some demoState,
              doc_proofs = Some [(''proof_7'', ''data:image/png;base64,AAAA'')]\<rparr>
   \<and> handleImport Completes
        (Some (Parsed \<lparr>version = ''1.0'', timestamp = ''2024-03-01T08:00:00.000Z'',
                       doc_gameState = Some demoState,
                       doc_proofs = Some [(''proof_7'', ''data:image/png;base64,AAAA'')]\<rparr>))
        True (handleReset demoConstants (localDate demoClock) (demoApp\<lparr>proofStore := []\<rparr>))
      = (None, demoApp\<lparr>screen := MENU\<rparr>)"
proof -
  let ?doc = "\<lparr>version = ''1.0'', timestamp = ''2024-03-01T08:00:00.000Z'',
              doc_gameState = Some demoState,
              doc_proofs = Some [(''proof_7'', ''data:image/png;base64,AAAA'')]\<rparr>"
  let ?other = "handleReset demoConstants (localDate demoClock) (demoApp\<lparr>proofStore := []\<rparr>)"
  have d: "distinct (map fst (proofStore demoApp))" by (simp add: demoApp_def)
  have e: "handleExport Completes ''2024-03-01T08:00:00.000Z'' demoApp = Inr ?doc"
    by (simp add: handleExport_def getAllProofs_def demoApp_def)
  have rest: "screen (snd (handleImport Completes (Some (Parsed ?doc)) True ?other)) = MENU
     \<and> verificationTargetId (snd (handleImport Completes (Some (Parsed ?doc)) True ?other)) = Some ''h3''
     \<and> levelUpRank (snd (handleImport Completes (Some (Parsed ?doc)) True ?other)) = None"
    by (simp add: handleImport_def clearAndRestoreProofs_def onImport_def handleReset_def demoApp_def)
  show ?thesis
    using backup_round_trip [OF d e, of ?other] d e rest
    by (simp add: prod_eq_iff App.equality demoApp_def)
qed

section \<open>Reset\<close>

text \<open>
  C10. A reset replaces the aggregate by the initial one: no habits, points, experience
  and rank index 0, the initial themes with \<open>red\<close> active, an empty proof log, and the
  check date set to today. The volume keeps its value, and the vault is not touched, so
  the payloads stored before the reset are still there.
\<close>

theorem reset_effect:
  "habits (gameState (handleReset c today app)) = []
   \<and> stats (gameState (handleReset c today app)) = \<lparr>points = 0, totalXP = 0, rankIndex = 0\<rparr>
   \<and> themes (gameState (handleReset c today app)) = INITIAL_THEMES c
   \<and> activeThemeId (gameState (handleReset c today app)) = ''red''
   \<and> proofLog (gameState (handleReset c today app)) = []
   \<and> lastCheckDate (gameState (handleReset c today app)) = Some (getLocalDateString today)
   \<and> volume (gameState (handleReset c today app)) = volume (gameState app)
   \<and> proofStore (handleReset c today app) = proofStore app"
  by (simp add: handleReset_def)

section \<open>Order of the check date\<close>

lemma day_le_refl: "day_le d d"
  by (induction d) simp_all

lemma date_le_refl: "date_le d d"
  by (cases d) (simp_all add: day_le_refl)

lemma day_le_trans: "day_le a b \<Longrightarrow> day_le b c \<Longrightarrow> day_le a c"
proof (induction a b arbitrary: c rule: day_le.induct)
  case (1 ys)
  then show ?case by simp
next
  case (2 x xs)
  then show ?case by simp
next
  case (3 x xs y ys)
  then show ?case by (cases c) (auto split: if_splits)
qed

lemma date_le_trans: "date_le a b \<Longrightarrow> date_le b c \<Longrightarrow> date_le a c"
  by (cases a; cases b; cases c) (auto intro: day_le_trans)

lemma checkDateAndReset_lastCheckDate:
  "lastCheckDate (fst (checkDateAndReset c callbackNow updaterNow g))
     = Some (getLocalDateString callbackNow)"
  by (auto simp: checkDateAndReset_def Let_def)

lemma completionUpdater_lastCheckDate:
  "lastCheckDate (fst (completionUpdater c t hid p i g)) = lastCheckDate g"
  by (simp add: completionUpdater_def Let_def split: option.splits)

lemma step_lastCheckDate:
  "lastCheckDate (gameState (step c e app)) =
     (case e of
        RolloverCheck callbackNow updaterNow \<Rightarrow> Some (getLocalDateString callbackNow)
      | Completion hid clk io imageData \<Rightarrow> lastCheckDate (gameState app)
      | Reset today \<Rightarrow> Some (getLocalDateString today))"
  by (cases e)
    (simp_all add: checkDateAndReset_lastCheckDate handleVerification_gameState
      completionUpdater_lastCheckDate handleReset_def)

text \<open>
  One operation, fired when the clock reads a day not before the day \<open>d0\<close> that bounds
  the stored check date: the check date does not decrease, and the day the clock reads
  bounds the new one.
\<close>

lemma step_keeps_order:
  assumes "date_le (lastCheckDate (gameState app)) (Some d0)" and "day_le d0 (eventDay e)"
  shows "date_le (lastCheckDate (gameState app)) (lastCheckDate (gameState (step c e app)))"
    and "date_le (lastCheckDate (gameState (step c e app))) (Some (eventDay e))"
proof -
  have bound: "date_le (lastCheckDate (gameState app)) (Some (eventDay e))"
    using assms date_le_trans [of "lastCheckDate (gameState app)" "Some d0" "Some (eventDay e)"]
    by simp
  show "date_le (lastCheckDate (gameState app)) (lastCheckDate (gameState (step c e app)))"
    using bound by (cases e) (simp_all add: step_lastCheckDate date_le_refl del: step.simps)
  show "date_le (lastCheckDate (gameState (step c e app))) (Some (eventDay e))"
    using bound by (cases e) (simp_all add: step_lastCheckDate day_le_refl del: step.simps)
qed

text \<open>
  C8, as the code has it. The rollover check and the reset store the day the clock
  reads, whatever the stored day, and a completion leaves the check date alone. Take a
  state whose check date is unset or not after a day \<open>d0\<close>, and any run of rollover
  checks, completions and resets in which the day read by the clock starts at \<open>d0\<close> or
  later and never goes back from one operation to the next. Then the check date never
  decreases along the run: after each operation it is, in calendar-day order, the check
  date before it or a later day.
\<close>

theorem lastCheckDate_monotone:
  assumes "date_le (lastCheckDate (gameState app)) (Some d0)"
    and "neverGoesBack d0 (map eventDay es)"
  shows "neverDecreases (lastCheckDate (gameState app)) (datesAlong c app es)"
  using assms
proof (induction es arbitrary: app d0)
  case Nil
  then show ?case by simp
next
  case (Cons e es)
  from Cons.prems(2) have first: "day_le d0 (eventDay e)"
    and rest: "neverGoesBack (eventDay e) (map eventDay es)"
    by simp_all
  from step_keeps_order [OF Cons.prems(1) first, of c]
  have up: "date_le (lastCheckDate (gameState app)) (lastCheckDate (gameState (step c e app)))"
    and bound: "date_le (lastCheckDate (gameState (step c e app))) (Some (eventDay e))"
    by simp_all
  from Cons.IH [OF bound rest] up show ?case by simp
qed

text \<open>
  The sample installation, last checked on 29 February: a check and a completion on
  1 March, then a reset, a check and a completion on 2 March.
\<close>

theorem lastCheckDate_monotone_witness:
  "date_le (lastCheckDate (gameState demoApp)) (Some ''2024-02-29'')
   \<and> neverGoesBack ''2024-02-29'' (map eventDay demoRun)
   \<and> lastCheckDate (gameState demoApp) = Some ''2024-02-29''
   \<and> datesAlong demoConstants demoApp demoRun
       = [Some ''2024-03-01'', Some ''2024-03-01'', Some ''2024-03-02'', Some ''2024-03-02'',
          Some ''2024-03-02'']
   \<and> neverDecreases (Some ''2024-02-29'') (datesAlong demoConstants demoApp demoRun)"
proof -
  have h: "date_le (lastCheckDate (gameState demoApp)) (Some ''2024-02-29'')"
    by (simp add: demoApp_def demoState_def)
  have r: "neverGoesBack ''2024-02-29'' (map eventDay demoRun)"
    by (simp add: demoRun_def demo_today demo_march2)
  have d: "datesAlong demoConstants demoApp demoRun
       = [Some ''2024-03-01'', Some ''2024-03-01'', Some ''2024-03-02'', Some ''2024-03-02'',
          Some ''2024-03-02'']"
    by (simp add: demoRun_def step_lastCheckDate demo_today demo_march2 demoApp_def demoState_def
        del: step.simps)
  show ?thesis
    using lastCheckDate_monotone [OF h r, of demoConstants] h r d
    by (simp add: demoApp_def demoState_def)
qed

text \<open>
  C8 as stated fails: the rollover check compares the stored day with today for
  inequality only. After a reset on 29 February, a check at a time the clock reads
  28 February moves the check date back by a day.
\<close>

theorem clock_set_back_lowers_lastCheckDate:
  "lastCheckDate (gameState (handleReset demoConstants demoFeb29 demoApp)) = Some ''2024-02-29''
   \<and> lastCheckDate (fst (checkDateAndReset demoConstants demoFeb28 demoFeb28
        (gameState (handleReset demoConstants demoFeb29 demoApp))))
     = Some ''2024-02-28''
   \<and> \<not> date_le (Some ''2024-02-29'') (Some ''2024-02-28'')"
  by (simp add: checkDateAndReset_lastCheckDate handleReset_def demo_feb28 demo_feb29)

end
